theory Spec2Isabelle
  imports Main "HOL-Library.Word"
begin

section \<open>Data model of contrib/sepgsql/hooks.c\<close>

text \<open>
  The embedding follows \<^verbatim>\<open>contrib/sepgsql/hooks.c\<close>. The file-level statics of the
  module become fields of one record that every entry point takes and returns; \<^verbatim>\<open>ereport\<close>
  at a level that does not return, a failed \<^verbatim>\<open>Assert\<close> and a read through a null pointer
  become values of a failure type, so each way out of a C function is a branch of its model.
\<close>

type_synonym Oid = "32 word"

type_synonym label = string

type_synonym Datum = nat

type_synonym ParamListInfo = nat

type_synonym DestReceiver = nat

subsection \<open>Errors\<close>

text \<open>
  \<^verbatim>\<open>ereport(ERROR, ...)\<close> leaves the function by a long jump that an enclosing
  \<^verbatim>\<open>PG_TRY\<close> catches. \<^verbatim>\<open>ereport(FATAL, ...)\<close> and \<^verbatim>\<open>PANIC\<close> end the backend
  process, a failed \<^verbatim>\<open>Assert\<close> aborts it, and so does a read through a null pointer: no
  \<^verbatim>\<open>PG_CATCH\<close> block runs for these.
\<close>

datatype elevel = ERROR | FATAL | PANIC

datatype failure =
    Ereport elevel string string
  | FailedAssertion string
  | NullPointerRead

definition ERRCODE_INTERNAL_ERROR :: string where
  "ERRCODE_INTERNAL_ERROR = ''XX000''"

definition ERRCODE_INSUFFICIENT_PRIVILEGE :: string where
  "ERRCODE_INSUFFICIENT_PRIVILEGE = ''42501''"

text \<open>The failures a \<^verbatim>\<open>PG_CATCH\<close> block sees: the ones raised at level \<^verbatim>\<open>ERROR\<close>.\<close>

fun unwinds :: "failure \<Rightarrow> bool" where
  "unwinds (Ereport lev code msg) = (lev = ERROR)"
| "unwinds (FailedAssertion cond) = False"
| "unwinds NullPointerRead = False"

text \<open>
  The outcomes after which the backend still runs: a normal return, and an error that
  unwinds to the enclosing handler.
\<close>

fun survives :: "failure + 'a \<Rightarrow> bool" where
  "survives (Inr x) = True"
| "survives (Inl e) = unwinds e"

subsection \<open>Host types the hooks receive\<close>

datatype NodeTag =
    T_Invalid
  | T_CreateStmt
  | T_ViewStmt
  | T_CreateSeqStmt
  | T_CompositeTypeStmt
  | T_CreateForeignTableStmt
  | T_SelectStmt
  | T_InsertStmt
  | T_DeleteStmt
  | T_UpdateStmt
  | T_CreatedbStmt
  | T_LoadStmt
  | T_OtherNode nat

datatype CmdType =
    CMD_UNKNOWN
  | CMD_SELECT
  | CMD_UPDATE
  | CMD_INSERT
  | CMD_DELETE
  | CMD_UTILITY
  | CMD_NOTHING

datatype ObjectAccessType = OAT_POST_CREATE | OAT_OtherAccess int

datatype FmgrHookEventType = FHET_START | FHET_END | FHET_ABORT | FHET_OtherEvent int

text \<open>
  A \<^verbatim>\<open>DefElem\<close> of a statement's option list: its name and its argument, read by
  \<^verbatim>\<open>strVal\<close>. The argument pointer may be null (\<open>None\<close>).
\<close>

record DefElem =
  defname :: string
  arg :: "string option"

text \<open>
  A parse tree node: its tag, and the option list that the cast to \<^verbatim>\<open>CreatedbStmt\<close>
  reads when the tag is \<^verbatim>\<open>T_CreatedbStmt\<close>.
\<close>

record Node =
  nodeTag :: NodeTag
  options :: "DefElem list"

record QueryDesc =
  operation :: CmdType

record Port =
  sock :: int

record FmgrInfo =
  fn_oid :: Oid

record RangeTblEntry =
  relid :: Oid
  requiredPerms :: "32 word"

definition STATUS_OK :: int where
  "STATUS_OK = 0"

definition DatabaseRelationId :: Oid where
  "DatabaseRelationId = 1262"

definition NamespaceRelationId :: Oid where
  "NamespaceRelationId = 2615"

definition RelationRelationId :: Oid where
  "RelationRelationId = 1259"

definition ProcedureRelationId :: Oid where
  "ProcedureRelationId = 1255"

subsection \<open>Session state\<close>

datatype sepgsql_mode_t =
    SEPGSQL_MODE_DEFAULT
  | SEPGSQL_MODE_PERMISSIVE
  | SEPGSQL_MODE_INTERNAL
  | SEPGSQL_MODE_DISABLED

datatype sepg_class = SEPG_CLASS_PROCESS | SEPG_CLASS_DB_PROCEDURE

datatype sepg_perm = SEPG_PROCESS__TRANSITION | SEPG_DB_PROCEDURE__EXECUTE

datatype avc_audit = SEPGSQL_AVC_NOAUDIT | AuditName "string option"

text \<open>
  What a permission check is about: an \<^verbatim>\<open>ObjectAddress\<close> (its \<^verbatim>\<open>classId\<close>,
  \<^verbatim>\<open>objectId\<close> and \<^verbatim>\<open>objectSubId\<close>), or a security label given directly.
\<close>

datatype avc_target = ObjectAddress Oid Oid int | TargetLabel label

text \<open>\<^verbatim>\<open>sepgsql_context_info_t\<close>: the contextual information on DDL commands.\<close>

record sepgsql_context_info_t =
  cmdtype :: NodeTag
  createdb_dtemplate :: "string option"

text \<open>
  The session state. \<open>sepgsql_context_info\<close> and \<open>sepgsql_permissive\<close> are statics of
  hooks.c; \<open>client_label\<close> and \<open>sepgsql_mode\<close> are the statics behind
  \<^verbatim>\<open>sepgsql_set_client_label\<close> and \<^verbatim>\<open>sepgsql_set_mode\<close>. \<^verbatim>\<open>_PG_init\<close> sets the
  client label from \<^verbatim>\<open>getcon_raw\<close> before it installs any hook, so the label is never null
  when a hook runs. \<open>host\<close> is the rest of the backend: catalogs, the access vector cache,
  the state of other modules.
\<close>

record 'h world =
  client_label :: label
  sepgsql_mode :: sepgsql_mode_t
  sepgsql_permissive :: bool
  sepgsql_context_info :: sepgsql_context_info_t
  host :: 'h

text \<open>
  A handler of another module (a previously installed hook) or a helper of this module
  outside hooks.c reads the session and works on the host; the statics above are written
  only by the functions of hooks.c. The two handlers that dispatch a nested command
  (\<^verbatim>\<open>ProcessUtility\<close>, \<^verbatim>\<open>ExecutorStart\<close>) re-enter the hooks of this file, so they are
  functions of the whole state.
\<close>

type_synonym ('h, 'a) chained = "'h world \<Rightarrow> (failure + 'a) \<times> 'h"

type_synonym ('h, 'a) dispatch = "'h world \<Rightarrow> (failure + 'a) \<times> 'h world"

text \<open>Saved hook entries (if stacked): \<open>None\<close> is the null function pointer.\<close>

record 'h hooks =
  next_object_access_hook ::
    "(ObjectAccessType \<Rightarrow> Oid \<Rightarrow> Oid \<Rightarrow> int \<Rightarrow> ('h, unit) chained) option"
  next_client_auth_hook :: "(Port \<Rightarrow> int \<Rightarrow> ('h, unit) chained) option"
  next_exec_check_perms_hook :: "(RangeTblEntry list \<Rightarrow> bool \<Rightarrow> ('h, bool) chained) option"
  next_needs_fmgr_hook :: "(Oid \<Rightarrow> ('h, bool) chained) option"
  next_fmgr_hook ::
    "(FmgrHookEventType \<Rightarrow> FmgrInfo \<Rightarrow> 'h world \<Rightarrow> Datum \<times> 'h
        \<Rightarrow> (failure + unit) \<times> (Datum \<times> 'h)) option"
  next_ProcessUtility_hook ::
    "(Node \<Rightarrow> string \<Rightarrow> ParamListInfo \<Rightarrow> bool \<Rightarrow> DestReceiver \<Rightarrow> ('h, unit) dispatch) option"
  next_ExecutorStart_hook :: "(QueryDesc \<Rightarrow> int \<Rightarrow> ('h, unit) dispatch) option"

text \<open>
  The functions hooks.c calls and does not define (libselinux, the other files of the
  module, the host's standard handlers) are parameters of the model.
  \<open>getpeercon_raw\<close> gives \<open>None\<close> where the C function returns a negative value.
  \<open>avc_allowed\<close> is the answer of the policy for the current subject: what
  \<^verbatim>\<open>sepgsql_avc_check_perms\<close> returns when it returns.
  \<open>assert_enabled\<close> says whether the build checks assertions.
\<close>

record 'h env =
  assert_enabled :: bool
  getpeercon_raw :: "'h world \<Rightarrow> int \<Rightarrow> label option"
  sepgsql_getenforce :: "'h world \<Rightarrow> bool"
  sepgsql_avc_trusted_proc :: "'h world \<Rightarrow> Oid \<Rightarrow> label option"
  avc_allowed :: "'h world \<Rightarrow> avc_target \<Rightarrow> sepg_class \<Rightarrow> sepg_perm \<Rightarrow> bool"
  sepgsql_dml_privileges :: "RangeTblEntry list \<Rightarrow> bool \<Rightarrow> ('h, bool) chained"
  sepgsql_database_post_create :: "Oid \<Rightarrow> string option \<Rightarrow> ('h, unit) chained"
  sepgsql_schema_post_create :: "Oid \<Rightarrow> ('h, unit) chained"
  sepgsql_relation_post_create :: "Oid \<Rightarrow> ('h, unit) chained"
  sepgsql_attribute_post_create :: "Oid \<Rightarrow> int \<Rightarrow> ('h, unit) chained"
  sepgsql_proc_post_create :: "Oid \<Rightarrow> ('h, unit) chained"
  standard_ProcessUtility ::
    "Node \<Rightarrow> string \<Rightarrow> ParamListInfo \<Rightarrow> bool \<Rightarrow> DestReceiver \<Rightarrow> ('h, unit) dispatch"
  standard_ExecutorStart :: "QueryDesc \<Rightarrow> int \<Rightarrow> ('h, unit) dispatch"

section \<open>Control flow\<close>

text \<open>Sequencing: a failure of the first step ends the function with the state it left.\<close>

definition and_then ::
  "('s \<Rightarrow> (failure + 'a) \<times> 's) \<Rightarrow> ('a \<Rightarrow> 's \<Rightarrow> (failure + 'b) \<times> 's)
     \<Rightarrow> 's \<Rightarrow> (failure + 'b) \<times> 's" where
  "and_then m k s = (case m s of (Inl e, s') \<Rightarrow> (Inl e, s') | (Inr x, s') \<Rightarrow> k x s')"

definition done_with :: "'a \<Rightarrow> 's \<Rightarrow> (failure + 'a) \<times> 's" where
  "done_with x s = (Inr x, s)"

definition ereport :: "elevel \<Rightarrow> string \<Rightarrow> string \<Rightarrow> 's \<Rightarrow> (failure + 'a) \<times> 's" where
  "ereport lev code msg s = (Inl (Ereport lev code msg), s)"

text \<open>\<^verbatim>\<open>elog(ERROR, ...)\<close> reports with the error code of an internal error.\<close>

definition elog_ERROR :: "string \<Rightarrow> 's \<Rightarrow> (failure + 'a) \<times> 's" where
  "elog_ERROR msg = ereport ERROR ERRCODE_INTERNAL_ERROR msg"

text \<open>A call of a handler that works on the host.\<close>

definition call_next :: "('h, 'a) chained \<Rightarrow> ('h, 'a) dispatch" where
  "call_next f w = (case f w of (r, h) \<Rightarrow> (r, w\<lparr>host := h\<rparr>))"

section \<open>Session security state\<close>

text \<open>
  Modelled from the spec: \<^verbatim>\<open>sepgsql_set_client_label\<close> (label.c) is not among the
  sources. The spec gives it as \<open>setLabel(new) -> old\<close>: a swap that returns the old
  value to the caller.
\<close>

definition sepgsql_set_client_label :: "label \<Rightarrow> 'h world \<Rightarrow> label \<times> 'h world" where
  "sepgsql_set_client_label new_label w = (client_label w, w\<lparr>client_label := new_label\<rparr>)"

text \<open>
  Modelled from the spec: \<^verbatim>\<open>sepgsql_set_mode\<close> (selinux.c) is not among the sources.
  The spec gives it as \<open>setMode(m)\<close>; the forward-only rule on the mode is kept by its
  two callers, \<^verbatim>\<open>_PG_init\<close> and the authentication hook, which runs once per session.
\<close>

definition sepgsql_set_mode :: "sepgsql_mode_t \<Rightarrow> 'h world \<Rightarrow> sepgsql_mode_t \<times> 'h world" where
  "sepgsql_set_mode new_mode w = (sepgsql_mode w, w\<lparr>sepgsql_mode := new_mode\<rparr>)"

section \<open>sepgsql_client_auth\<close>

text \<open>\<^verbatim>\<open>if (next_client_auth_hook) (*next_client_auth_hook) (port, status);\<close>\<close>

definition chained_client_auth :: "'h hooks \<Rightarrow> Port \<Rightarrow> int \<Rightarrow> ('h, unit) dispatch" where
  "chained_client_auth H port status =
     (case next_client_auth_hook H of
        None \<Rightarrow> done_with ()
      | Some nxt \<Rightarrow> call_next (nxt port status))"

definition sepgsql_client_auth :: "'h hooks \<Rightarrow> 'h env \<Rightarrow> Port \<Rightarrow> int \<Rightarrow> ('h, unit) dispatch" where
  "sepgsql_client_auth H E port status =
     and_then (chained_client_auth H port status)
       (\<lambda>_ w.
          if status \<noteq> STATUS_OK then (Inr (), w)
          else
            (case getpeercon_raw E w (sock port) of
               None \<Rightarrow>
                 ereport FATAL ERRCODE_INTERNAL_ERROR ''SELinux: unable to get peer label: %m'' w
             | Some context \<Rightarrow>
                 (let w1 = snd (sepgsql_set_client_label context w) in
                  if sepgsql_permissive w1
                  then (Inr (), snd (sepgsql_set_mode SEPGSQL_MODE_PERMISSIVE w1))
                  else (Inr (), snd (sepgsql_set_mode SEPGSQL_MODE_DEFAULT w1)))))"

section \<open>Access vector cache\<close>

text \<open>
  Modelled from the spec: the permission checks of uavc.c are not among the sources. The
  spec gives them as \<open>checkPermission(subjectLabel, classTag, permissionBits, auditMode,
  fatalOnDeny) -> bool\<close>: the answer of the policy is returned, and a denial with
  \<open>fatalOnDeny\<close> set is raised as an access-control error instead.
\<close>

definition avc_check ::
  "'h env \<Rightarrow> avc_target \<Rightarrow> sepg_class \<Rightarrow> sepg_perm \<Rightarrow> avc_audit \<Rightarrow> bool \<Rightarrow> ('h, bool) dispatch" where
  "avc_check E target tclass required audit_name abort w =
     (if avc_allowed E w target tclass required then (Inr True, w)
      else if abort
        then ereport ERROR ERRCODE_INSUFFICIENT_PRIVILEGE ''SELinux: security policy violation'' w
        else (Inr False, w))"

text \<open>
  Modelled from the spec: \<^verbatim>\<open>sepgsql_avc_check_perms\<close> is the check on an object
  address.
\<close>

definition sepgsql_avc_check_perms ::
  "'h env \<Rightarrow> avc_target \<Rightarrow> sepg_class \<Rightarrow> sepg_perm \<Rightarrow> avc_audit \<Rightarrow> bool \<Rightarrow> ('h, bool) dispatch" where
  "sepgsql_avc_check_perms E tobject tclass required audit_name abort =
     avc_check E tobject tclass required audit_name abort"

text \<open>
  Modelled from the spec: \<^verbatim>\<open>sepgsql_avc_check_perms_label\<close> is the check on a label
  given directly.
\<close>

definition sepgsql_avc_check_perms_label ::
  "'h env \<Rightarrow> label \<Rightarrow> sepg_class \<Rightarrow> sepg_perm \<Rightarrow> avc_audit \<Rightarrow> bool \<Rightarrow> ('h, bool) dispatch" where
  "sepgsql_avc_check_perms_label E tcontext tclass required audit_name abort =
     avc_check E (TargetLabel tcontext) tclass required audit_name abort"

section \<open>sepgsql_object_access\<close>

text \<open>
  \<^verbatim>\<open>if (next_object_access_hook) (*next_object_access_hook) (access, classId, objectId, subId);\<close>
\<close>

definition chained_object_access ::
  "'h hooks \<Rightarrow> ObjectAccessType \<Rightarrow> Oid \<Rightarrow> Oid \<Rightarrow> int \<Rightarrow> ('h, unit) dispatch" where
  "chained_object_access H access classId objectId subId =
     (case next_object_access_hook H of
        None \<Rightarrow> done_with ()
      | Some nxt \<Rightarrow> call_next (nxt access classId objectId subId))"

definition sepgsql_object_access ::
  "'h hooks \<Rightarrow> 'h env \<Rightarrow> ObjectAccessType \<Rightarrow> Oid \<Rightarrow> Oid \<Rightarrow> int \<Rightarrow> ('h, unit) dispatch" where
  "sepgsql_object_access H E access classId objectId subId =
     and_then (chained_object_access H access classId objectId subId)
       (\<lambda>_ w.
          case access of
            OAT_POST_CREATE \<Rightarrow>
              if classId = DatabaseRelationId then
                call_next (sepgsql_database_post_create E objectId
                             (createdb_dtemplate (sepgsql_context_info w))) w
              else if classId = NamespaceRelationId then
                call_next (sepgsql_schema_post_create E objectId) w
              else if classId = RelationRelationId then
                (if subId = 0 then
                   (case cmdtype (sepgsql_context_info w) of
                      T_CreateStmt \<Rightarrow> call_next (sepgsql_relation_post_create E objectId) w
                    | T_ViewStmt \<Rightarrow> call_next (sepgsql_relation_post_create E objectId) w
                    | T_CreateSeqStmt \<Rightarrow> call_next (sepgsql_relation_post_create E objectId) w
                    | T_CompositeTypeStmt \<Rightarrow> call_next (sepgsql_relation_post_create E objectId) w
                    | T_CreateForeignTableStmt \<Rightarrow>
                        call_next (sepgsql_relation_post_create E objectId) w
                    | T_SelectStmt \<Rightarrow> call_next (sepgsql_relation_post_create E objectId) w
                    | _ \<Rightarrow> (Inr (), w))
                 else call_next (sepgsql_attribute_post_create E objectId subId) w)
              else if classId = ProcedureRelationId then
                call_next (sepgsql_proc_post_create E objectId) w
              else (Inr (), w)
          | OAT_OtherAccess n \<Rightarrow> elog_ERROR ''unexpected object access type: %d'' w)"

section \<open>sepgsql_exec_check_perms\<close>

text \<open>
  The answer of the chained handler in
  \<^verbatim>\<open>next_exec_check_perms_hook && !(*next_exec_check_perms_hook) (rangeTabls, abort)\<close>:
  with no handler installed nothing is called and nothing is denied.
\<close>

definition chained_exec_check_perms ::
  "'h hooks \<Rightarrow> RangeTblEntry list \<Rightarrow> bool \<Rightarrow> ('h, bool) dispatch" where
  "chained_exec_check_perms H rangeTabls abort =
     (case next_exec_check_perms_hook H of
        None \<Rightarrow> done_with True
      | Some nxt \<Rightarrow> call_next (nxt rangeTabls abort))"

definition sepgsql_exec_check_perms ::
  "'h hooks \<Rightarrow> 'h env \<Rightarrow> RangeTblEntry list \<Rightarrow> bool \<Rightarrow> ('h, bool) dispatch" where
  "sepgsql_exec_check_perms H E rangeTabls abort =
     and_then (chained_exec_check_perms H rangeTabls abort)
       (\<lambda>allowed.
          if \<not> allowed then done_with False
          else
            and_then (call_next (sepgsql_dml_privileges E rangeTabls abort))
              (\<lambda>ok. if \<not> ok then done_with False else done_with True))"

section \<open>sepgsql_needs_fmgr_hook\<close>

text \<open>
  The answer of the chained handler in
  \<^verbatim>\<open>next_needs_fmgr_hook && (*next_needs_fmgr_hook) (functionId)\<close>: with no handler
  installed nothing is called and the answer is no.
\<close>

definition chained_needs_fmgr_hook :: "'h hooks \<Rightarrow> Oid \<Rightarrow> ('h, bool) dispatch" where
  "chained_needs_fmgr_hook H functionId =
     (case next_needs_fmgr_hook H of
        None \<Rightarrow> done_with False
      | Some nxt \<Rightarrow> call_next (nxt functionId))"

definition sepgsql_needs_fmgr_hook :: "'h hooks \<Rightarrow> 'h env \<Rightarrow> Oid \<Rightarrow> ('h, bool) dispatch" where
  "sepgsql_needs_fmgr_hook H E functionId =
     and_then (chained_needs_fmgr_hook H functionId)
       (\<lambda>needed w.
          if needed then (Inr True, w)
          else if sepgsql_avc_trusted_proc E w functionId \<noteq> None then (Inr True, w)
          else
            and_then
              (sepgsql_avc_check_perms E (ObjectAddress ProcedureRelationId functionId 0)
                 SEPG_CLASS_DB_PROCEDURE SEPG_DB_PROCEDURE__EXECUTE SEPGSQL_AVC_NOAUDIT False)
              (\<lambda>ok. if \<not> ok then done_with True else done_with False) w)"

section \<open>sepgsql_fmgr_hook\<close>

text \<open>
  The structure the hook keeps behind \<^verbatim>\<open>*private\<close>. The slot itself is an argument and
  a result of the model: \<open>None\<close> is the null \<^verbatim>\<open>Datum\<close> of a slot never started.
\<close>

record fmgr_stack =
  old_label :: "label option"
  new_label :: "label option"
  next_private :: Datum

text \<open>
  \<^verbatim>\<open>if (next_fmgr_hook) (*next_fmgr_hook) (event, flinfo, &stack->next_private)\<close>:
  the chained handler sees the session as it is at the call and works on its own slot
  and on the host.
\<close>

definition call_next_fmgr_hook ::
  "'h hooks \<Rightarrow> FmgrHookEventType \<Rightarrow> FmgrInfo \<Rightarrow> fmgr_stack \<times> 'h world
     \<Rightarrow> (failure + unit) \<times> (fmgr_stack \<times> 'h world)" where
  "call_next_fmgr_hook H event flinfo sw =
     (case sw of (stack, w) \<Rightarrow>
        (case next_fmgr_hook H of
           None \<Rightarrow> (Inr (), (stack, w))
         | Some nxt \<Rightarrow>
             (case nxt event flinfo w (next_private stack, host w) of
                (r, (d, h)) \<Rightarrow> (r, (stack\<lparr>next_private := d\<rparr>, w\<lparr>host := h\<rparr>)))))"

text \<open>
  The block under \<^verbatim>\<open>if (!stack)\<close>: the structure is allocated, the transition label
  looked up, and the \<^verbatim>\<open>process:transition\<close> permission checked with \<^verbatim>\<open>abort\<close> set.
  A denial leaves the function before \<^verbatim>\<open>*private\<close> is assigned.
\<close>

definition fmgr_stack_of ::
  "'h env \<Rightarrow> FmgrInfo \<Rightarrow> fmgr_stack option \<Rightarrow> ('h, fmgr_stack) dispatch" where
  "fmgr_stack_of E flinfo private w =
     (case private of
        Some stack \<Rightarrow> (Inr stack, w)
      | None \<Rightarrow>
          (let stack = \<lparr>old_label = None,
                        new_label = sepgsql_avc_trusted_proc E w (fn_oid flinfo),
                        next_private = 0\<rparr>
           in case new_label stack of
                None \<Rightarrow> (Inr stack, w)
              | Some nl \<Rightarrow>
                  and_then
                    (sepgsql_avc_check_perms_label E nl SEPG_CLASS_PROCESS
                       SEPG_PROCESS__TRANSITION (AuditName None) True)
                    (\<lambda>_. done_with stack) w))"

text \<open>
  The \<^verbatim>\<open>Assert\<close> macro is not among the sources. It is the debug-only assertion of
  the host: the condition is checked, and its failure aborts the process, in a build with
  assertion checking (\<open>assert_enabled\<close> of the environment); in a build without, the
  macro does nothing.
\<close>

definition Assert :: "'h env \<Rightarrow> bool \<Rightarrow> string \<Rightarrow> 's \<Rightarrow> (failure + unit) \<times> 's" where
  "Assert E condition cond_text s =
     (if assert_enabled E \<and> \<not> condition then (Inl (FailedAssertion cond_text), s)
      else (Inr (), s))"

text \<open>
  The hook itself. \<^verbatim>\<open>FHET_END\<close> and \<^verbatim>\<open>FHET_ABORT\<close> share one body. On a slot never
  started the stack pointer is null: the chained handler, called first, is given the
  address of \<^verbatim>\<open>next_private\<close> computed from it (the model hands it a zero slot and
  drops what it writes there), and the read of \<^verbatim>\<open>stack->old_label\<close> that follows is a
  read through a null pointer. The switch of the memory context around the allocation
  has no effect on the state modelled here.
\<close>

definition sepgsql_fmgr_hook ::
  "'h hooks \<Rightarrow> 'h env \<Rightarrow> FmgrHookEventType \<Rightarrow> FmgrInfo \<Rightarrow> fmgr_stack option \<times> 'h world
     \<Rightarrow> (failure + unit) \<times> (fmgr_stack option \<times> 'h world)" where
  "sepgsql_fmgr_hook H E event flinfo pw =
     (case pw of (private, w) \<Rightarrow>
        if event = FHET_START then
          (case fmgr_stack_of E flinfo private w of
             (Inl e, w1) \<Rightarrow> (Inl e, (private, w1))
           | (Inr stack, w1) \<Rightarrow>
               (case Assert E (old_label stack = None) ''!stack->old_label'' (Some stack, w1) of
                  (Inl e, s) \<Rightarrow> (Inl e, s)
                | (Inr _, _) \<Rightarrow>
                    (let (stack1, w2) =
                           (case new_label stack of
                              None \<Rightarrow> (stack, w1)
                            | Some nl \<Rightarrow>
                                (case sepgsql_set_client_label nl w1 of
                                   (old, w') \<Rightarrow> (stack\<lparr>old_label := Some old\<rparr>, w')))
                     in case call_next_fmgr_hook H event flinfo (stack1, w2) of
                          (r, (stack2, w3)) \<Rightarrow> (r, (Some stack2, w3)))))
        else if event = FHET_END \<or> event = FHET_ABORT then
          (case private of
             None \<Rightarrow>
               (case next_fmgr_hook H of
                  None \<Rightarrow> (Inl NullPointerRead, (private, w))
                | Some nxt \<Rightarrow>
                    (case nxt event flinfo w (0, host w) of
                       (Inl e, (d, h)) \<Rightarrow> (Inl e, (private, w\<lparr>host := h\<rparr>))
                     | (Inr _, (d, h)) \<Rightarrow> (Inl NullPointerRead, (private, w\<lparr>host := h\<rparr>))))
           | Some stack \<Rightarrow>
               (case call_next_fmgr_hook H event flinfo (stack, w) of
                  (Inl e, (stack1, w1)) \<Rightarrow> (Inl e, (Some stack1, w1))
                | (Inr _, (stack1, w1)) \<Rightarrow>
                    (let w2 = (case old_label stack1 of
                                 None \<Rightarrow> w1
                               | Some ol \<Rightarrow> snd (sepgsql_set_client_label ol w1))
                     in (Inr (), (Some (stack1\<lparr>old_label := None\<rparr>), w2)))))
        else elog_ERROR ''unexpected event type: %d'' pw)"

section \<open>Saving and restoring the contextual information\<close>

text \<open>
  \<^verbatim>\<open>PG_TRY(); { body } PG_CATCH(); { handler; PG_RE_THROW(); } PG_END_TRY();\<close>
  The handler runs on an error that unwinds, and the error is raised again.
\<close>

definition PG_TRY ::
  "('s \<Rightarrow> (failure + 'a) \<times> 's) \<Rightarrow> ('s \<Rightarrow> 's) \<Rightarrow> 's \<Rightarrow> (failure + 'a) \<times> 's" where
  "PG_TRY body handler s =
     (case body s of
        (Inl e, s') \<Rightarrow> if unwinds e then (Inl e, handler s') else (Inl e, s')
      | (Inr x, s') \<Rightarrow> (Inr x, s'))"

definition set_cmdtype :: "NodeTag \<Rightarrow> 'h world \<Rightarrow> 'h world" where
  "set_cmdtype t w = w\<lparr>sepgsql_context_info := (sepgsql_context_info w)\<lparr>cmdtype := t\<rparr>\<rparr>"

text \<open>
  The delegation inside the \<^verbatim>\<open>PG_TRY\<close> block: the chained handler when one is
  installed, \<^verbatim>\<open>standard_ExecutorStart\<close> otherwise.
\<close>

definition next_ExecutorStart :: "'h hooks \<Rightarrow> 'h env \<Rightarrow> QueryDesc \<Rightarrow> int \<Rightarrow> ('h, unit) dispatch" where
  "next_ExecutorStart H E queryDesc eflags =
     (case next_ExecutorStart_hook H of
        Some nxt \<Rightarrow> nxt queryDesc eflags
      | None \<Rightarrow> standard_ExecutorStart E queryDesc eflags)"

definition sepgsql_executor_start ::
  "'h hooks \<Rightarrow> 'h env \<Rightarrow> QueryDesc \<Rightarrow> int \<Rightarrow> ('h, unit) dispatch" where
  "sepgsql_executor_start H E queryDesc eflags w0 =
     (let saved_context_info = sepgsql_context_info w0 in
      and_then
        (PG_TRY
           (\<lambda>w.
              (let w1 = (if operation queryDesc = CMD_SELECT then set_cmdtype T_SelectStmt w
                         else if operation queryDesc = CMD_INSERT then set_cmdtype T_InsertStmt w
                         else if operation queryDesc = CMD_DELETE then set_cmdtype T_DeleteStmt w
                         else if operation queryDesc = CMD_UPDATE then set_cmdtype T_UpdateStmt w
                         else w)
               in next_ExecutorStart H E queryDesc eflags w1))
           (\<lambda>w. w\<lparr>sepgsql_context_info := saved_context_info\<rparr>))
        (\<lambda>_ w. (Inr (), w\<lparr>sepgsql_context_info := saved_context_info\<rparr>)) w0)"

section \<open>sepgsql_utility_command\<close>

text \<open>
  The \<^verbatim>\<open>foreach\<close> over the options of \<^verbatim>\<open>CREATE DATABASE\<close>: the first option named
  \<^verbatim>\<open>template\<close> ends the loop. \<^verbatim>\<open>strVal\<close> reads through the argument pointer.
\<close>

fun createdb_options_scan :: "DefElem list \<Rightarrow> ('h, unit) dispatch" where
  "createdb_options_scan [] w = (Inr (), w)"
| "createdb_options_scan (defel # cells) w =
     (if defname defel = ''template'' then
        (case arg defel of
           None \<Rightarrow> (Inl NullPointerRead, w)
         | Some str \<Rightarrow>
             (Inr (), w\<lparr>sepgsql_context_info :=
                          (sepgsql_context_info w)\<lparr>createdb_dtemplate := Some str\<rparr>\<rparr>))
      else createdb_options_scan cells w)"

text \<open>
  The delegation at the end of the \<^verbatim>\<open>PG_TRY\<close> block: the chained handler when one is
  installed, \<^verbatim>\<open>standard_ProcessUtility\<close> otherwise.
\<close>

definition next_ProcessUtility ::
  "'h hooks \<Rightarrow> 'h env \<Rightarrow> Node \<Rightarrow> string \<Rightarrow> ParamListInfo \<Rightarrow> bool \<Rightarrow> DestReceiver
     \<Rightarrow> ('h, unit) dispatch" where
  "next_ProcessUtility H E parsetree queryString params isTopLevel dest =
     (case next_ProcessUtility_hook H of
        Some nxt \<Rightarrow> nxt parsetree queryString params isTopLevel dest
      | None \<Rightarrow> standard_ProcessUtility E parsetree queryString params isTopLevel dest)"

definition sepgsql_utility_command ::
  "'h hooks \<Rightarrow> 'h env \<Rightarrow> Node \<Rightarrow> string \<Rightarrow> ParamListInfo \<Rightarrow> bool \<Rightarrow> DestReceiver
     \<Rightarrow> ('h, unit) dispatch" where
  "sepgsql_utility_command H E parsetree queryString params isTopLevel dest w0 =
     (let saved_context_info = sepgsql_context_info w0 in
      and_then
        (PG_TRY
           (and_then
              (\<lambda>w.
                 (let w1 = set_cmdtype (nodeTag parsetree) w
                  in case nodeTag parsetree of
                       T_CreatedbStmt \<Rightarrow> createdb_options_scan (options parsetree) w1
                     | T_LoadStmt \<Rightarrow>
                         if sepgsql_getenforce E w1
                         then ereport ERROR ERRCODE_INSUFFICIENT_PRIVILEGE
                                ''SELinux: LOAD is not permitted'' w1
                         else (Inr (), w1)
                     | _ \<Rightarrow> (Inr (), w1)))
              (\<lambda>_. next_ProcessUtility H E parsetree queryString params isTopLevel dest))
           (\<lambda>w. w\<lparr>sepgsql_context_info := saved_context_info\<rparr>))
        (\<lambda>_ w. (Inr (), w\<lparr>sepgsql_context_info := saved_context_info\<rparr>)) w0)"


section \<open>The host's calls of the function manager hook\<close>








section \<open>A sample session with test doubles\<close>

text \<open>
  Concrete instances for the theorems below. The host state of the sample session is the
  list of calls its doubles have received, in order.
\<close>

definition no_hooks :: "'h hooks" where
  "no_hooks =
     \<lparr>next_object_access_hook = None,
      next_client_auth_hook = None,
      next_exec_check_perms_hook = None,
      next_needs_fmgr_hook = None,
      next_fmgr_hook = None,
      next_ProcessUtility_hook = None,
      next_ExecutorStart_hook = None\<rparr>"

definition stacked_hooks :: "string list hooks" where
  "stacked_hooks =
     \<lparr>next_object_access_hook =
        Some (\<lambda>access classId objectId subId w. (Inr (), host w @ [''next_object_access''])),
      next_client_auth_hook =
        Some (\<lambda>port status w. (Inr (), host w @ [''next_client_auth''])),
      next_exec_check_perms_hook =
        Some (\<lambda>rangeTabls abort w. (Inr False, host w @ [''next_exec_check_perms''])),
      next_needs_fmgr_hook =
        Some (\<lambda>functionId w. (Inr False, host w @ [''next_needs_fmgr''])),
      next_fmgr_hook =
        Some (\<lambda>event flinfo w (d, h). (Inr (), (Suc d, h @ [client_label w]))),
      next_ProcessUtility_hook = None,
      next_ExecutorStart_hook = None\<rparr>"

definition sample_env :: "string list env" where
  "sample_env =
     \<lparr>assert_enabled = True,
      getpeercon_raw = (\<lambda>w fd. if fd = 7 then Some ''u:r:t:s0'' else None),
      sepgsql_getenforce = (\<lambda>w. sepgsql_mode w = SEPGSQL_MODE_DEFAULT),
      sepgsql_avc_trusted_proc =
        (\<lambda>w functionId.
           if functionId = 16384 then Some ''u:r:trusted_t:s0''
           else if functionId = 16387 then Some ''u:r:forbidden_t:s0''
           else None),
      avc_allowed =
        (\<lambda>w target tclass required.
           target \<noteq> ObjectAddress ProcedureRelationId 16385 0
           \<and> target \<noteq> TargetLabel ''u:r:forbidden_t:s0''),
      sepgsql_dml_privileges =
        (\<lambda>rangeTabls abort w. (Inr True, host w @ [''sepgsql_dml_privileges''])),
      sepgsql_database_post_create =
        (\<lambda>objectId dtemplate w. (Inr (), host w @ [''sepgsql_database_post_create''])),
      sepgsql_schema_post_create =
        (\<lambda>objectId w. (Inr (), host w @ [''sepgsql_schema_post_create''])),
      sepgsql_relation_post_create =
        (\<lambda>objectId w. (Inr (), host w @ [''sepgsql_relation_post_create''])),
      sepgsql_attribute_post_create =
        (\<lambda>objectId subId w. (Inr (), host w @ [''sepgsql_attribute_post_create''])),
      sepgsql_proc_post_create =
        (\<lambda>objectId w. (Inr (), host w @ [''sepgsql_proc_post_create''])),
      standard_ProcessUtility =
        (\<lambda>parsetree queryString params isTopLevel dest w.
           (Inr (), w\<lparr>host := host w @ [''standard_ProcessUtility'']\<rparr>)),
      standard_ExecutorStart =
        (\<lambda>queryDesc eflags w. (Inr (), w\<lparr>host := host w @ [''standard_ExecutorStart'']\<rparr>))\<rparr>"

text \<open>
  An environment whose standard utility handler dispatches a nested \<^verbatim>\<open>LOAD\<close> through
  the hook of this module, as the host does for a command run inside another.
\<close>

definition nesting_env :: "string list env" where
  "nesting_env =
     sample_env\<lparr>standard_ProcessUtility :=
       (\<lambda>parsetree queryString params isTopLevel dest.
          sepgsql_utility_command no_hooks sample_env
            \<lparr>nodeTag = T_LoadStmt, options = []\<rparr> ''LOAD'' params False dest)\<rparr>"

definition sample_session :: "sepgsql_mode_t \<Rightarrow> string list world" where
  "sample_session mode =
     \<lparr>client_label = ''u:r:client_t:s0'',
      sepgsql_mode = mode,
      sepgsql_permissive = False,
      sepgsql_context_info = \<lparr>cmdtype = T_Invalid, createdb_dtemplate = None\<rparr>,
      host = []\<rparr>"

text \<open>The sample environment in a build without assertion checking.\<close>

definition release_env :: "string list env" where
  "release_env = sample_env\<lparr>assert_enabled := False\<rparr>"











section \<open>Properties\<close>

subsection \<open>Sequencing and calls on the host\<close>

lemma and_then_Inr [simp]: "m s = (Inr x, s') \<Longrightarrow> and_then m k s = k x s'"
  by (simp add: and_then_def)

lemma and_then_Inl [simp]: "m s = (Inl e, s') \<Longrightarrow> and_then m k s = (Inl e, s')"
  by (simp add: and_then_def)

lemma and_then_done_with [simp]: "and_then (done_with x) k s = k x s"
  by (simp add: and_then_def done_with_def)

lemma call_next_session:
  "call_next f w = (r, w1) \<Longrightarrow>
     client_label w1 = client_label w \<and> sepgsql_mode w1 = sepgsql_mode w
     \<and> sepgsql_permissive w1 = sepgsql_permissive w
     \<and> sepgsql_context_info w1 = sepgsql_context_info w"
  by (auto simp: call_next_def split: prod.splits)

lemma chained_client_auth_session:
  "chained_client_auth H port status w = (r, w1) \<Longrightarrow>
     client_label w1 = client_label w \<and> sepgsql_mode w1 = sepgsql_mode w"
  by (auto simp: chained_client_auth_def done_with_def dest: call_next_session split: option.splits)

subsection \<open>The function manager hook across an activation\<close>
























subsection \<open>The contextual information across nested dispatch\<close>

lemma PG_TRY_restores:
  "survives (fst (and_then (PG_TRY body (\<lambda>w. w\<lparr>sepgsql_context_info := saved\<rparr>))
                      (\<lambda>_ w. (Inr (), w\<lparr>sepgsql_context_info := saved\<rparr>)) w0)) \<Longrightarrow>
   sepgsql_context_info (snd (and_then (PG_TRY body (\<lambda>w. w\<lparr>sepgsql_context_info := saved\<rparr>))
                      (\<lambda>_ w. (Inr (), w\<lparr>sepgsql_context_info := saved\<rparr>)) w0)) = saved"
  by (cases "body w0"; cases "fst (body w0)") (auto simp: PG_TRY_def and_then_def)

text \<open>
  C2. For the utility command hook and the executor start hook, whatever the handler they
  delegate to does (it may dispatch further commands through these same hooks, return,
  or raise), if the dispatch leaves by a normal return or by an error that unwinds
  through it, the contextual information (command type and template database) after the
  exit equals the contextual information before the entry. The handler is arbitrary, so
  the same holds at every level of a nested dispatch: each exit restores what its own
  entry saved.
\<close>

theorem context_info_restored:
  "(survives (fst (sepgsql_utility_command H E parsetree queryString params isTopLevel dest w)) \<longrightarrow>
      sepgsql_context_info
        (snd (sepgsql_utility_command H E parsetree queryString params isTopLevel dest w)) =
      sepgsql_context_info w)
   \<and> (survives (fst (sepgsql_executor_start H E queryDesc eflags w)) \<longrightarrow>
        sepgsql_context_info (snd (sepgsql_executor_start H E queryDesc eflags w)) =
        sepgsql_context_info w)"
  unfolding sepgsql_utility_command_def sepgsql_executor_start_def Let_def
  using PG_TRY_restores by blast

text \<open>
  The sample dispatch: \<^verbatim>\<open>CREATE DATABASE\<close> with a template, whose standard handler
  dispatches a nested \<^verbatim>\<open>LOAD\<close> that is denied; the error unwinds through both
  levels. And a \<^verbatim>\<open>SELECT\<close> through the executor start hook.
\<close>

theorem context_info_restored_witness:
  "survives (fst (sepgsql_utility_command no_hooks nesting_env
       \<lparr>nodeTag = T_CreatedbStmt,
          options = [\<lparr>defname = ''owner'', arg = Some ''bob''\<rparr>,
                     \<lparr>defname = ''template'', arg = Some ''template1''\<rparr>]\<rparr>
       ''CREATE DATABASE'' 0 True 0 (sample_session SEPGSQL_MODE_DEFAULT)))
   \<and> sepgsql_context_info (snd (sepgsql_utility_command no_hooks nesting_env
       \<lparr>nodeTag = T_CreatedbStmt,
          options = [\<lparr>defname = ''owner'', arg = Some ''bob''\<rparr>,
                     \<lparr>defname = ''template'', arg = Some ''template1''\<rparr>]\<rparr>
       ''CREATE DATABASE'' 0 True 0 (sample_session SEPGSQL_MODE_DEFAULT))) =
     \<lparr>cmdtype = T_Invalid, createdb_dtemplate = None\<rparr>
   \<and> survives (fst (sepgsql_executor_start no_hooks sample_env \<lparr>operation = CMD_SELECT\<rparr> 0
                       (sample_session SEPGSQL_MODE_DEFAULT)))
   \<and> sepgsql_context_info (snd (sepgsql_executor_start no_hooks sample_env
       \<lparr>operation = CMD_SELECT\<rparr> 0 (sample_session SEPGSQL_MODE_DEFAULT))) =
     \<lparr>cmdtype = T_Invalid, createdb_dtemplate = None\<rparr>"
proof -
  let ?w = "sample_session SEPGSQL_MODE_DEFAULT"
  let ?tree = "\<lparr>nodeTag = T_CreatedbStmt,
          options = [\<lparr>defname = ''owner'', arg = Some ''bob''\<rparr>,
                     \<lparr>defname = ''template'', arg = Some ''template1''\<rparr>]\<rparr>"
  have u: "sepgsql_utility_command no_hooks nesting_env ?tree ''CREATE DATABASE'' 0 True 0 ?w =
             (Inl (Ereport ERROR ERRCODE_INSUFFICIENT_PRIVILEGE ''SELinux: LOAD is not permitted''),
              ?w)"
    by (simp add: sepgsql_utility_command_def PG_TRY_def and_then_def ereport_def
                  set_cmdtype_def next_ProcessUtility_def no_hooks_def nesting_env_def
                  sample_env_def sample_session_def)
  have e: "sepgsql_executor_start no_hooks sample_env \<lparr>operation = CMD_SELECT\<rparr> 0 ?w =
             (Inr (), ?w\<lparr>host := [''standard_ExecutorStart'']\<rparr>)"
    by (simp add: sepgsql_executor_start_def PG_TRY_def and_then_def
                  set_cmdtype_def next_ExecutorStart_def no_hooks_def
                  sample_env_def sample_session_def)
  have su: "survives (fst (sepgsql_utility_command no_hooks nesting_env ?tree
                             ''CREATE DATABASE'' 0 True 0 ?w))"
    by (simp add: u)
  have se: "survives (fst (sepgsql_executor_start no_hooks sample_env
                             \<lparr>operation = CMD_SELECT\<rparr> 0 ?w))"
    by (simp add: e)
  from context_info_restored[where H = no_hooks and E = nesting_env and parsetree = ?tree
         and queryString = "''CREATE DATABASE''" and params = 0 and isTopLevel = True
         and dest = 0 and w = ?w] su
  have r1: "sepgsql_context_info (snd (sepgsql_utility_command no_hooks nesting_env ?tree
                             ''CREATE DATABASE'' 0 True 0 ?w)) = sepgsql_context_info ?w"
    by blast
  from context_info_restored[where H = no_hooks and E = sample_env
         and queryDesc = "\<lparr>operation = CMD_SELECT\<rparr>" and eflags = 0 and w = ?w] se
  have r2: "sepgsql_context_info (snd (sepgsql_executor_start no_hooks sample_env
                             \<lparr>operation = CMD_SELECT\<rparr> 0 ?w)) = sepgsql_context_info ?w"
    by blast
  have w: "sepgsql_context_info ?w = \<lparr>cmdtype = T_Invalid, createdb_dtemplate = None\<rparr>"
    by (simp add: sample_session_def)
  from su se r1 r2 w show ?thesis by simp
qed

subsection \<open>A second Start on a started frame\<close>

text \<open>
  C3, as amended. In a build with assertion checking, a Start on a frame whose prior
  label slot \<open>old_label\<close> is set is rejected: the assertion fails and the process
  aborts, and neither the slot nor the session is changed, so the recorded prior label
  is not overwritten.
\<close>

theorem fmgr_hook_second_start_rejected:
  assumes "assert_enabled E"
    and "old_label stack \<noteq> None"
  shows "sepgsql_fmgr_hook H E FHET_START flinfo (Some stack, w) =
           (Inl (FailedAssertion ''!stack->old_label''), (Some stack, w))"
  using assms by (auto simp: sepgsql_fmgr_hook_def fmgr_stack_of_def Assert_def)

theorem fmgr_hook_second_start_rejected_witness:
  "assert_enabled sample_env
   \<and> old_label \<lparr>old_label = Some ''u:r:client_t:s0'', new_label = Some ''u:r:trusted_t:s0'',
               next_private = 1\<rparr> \<noteq> None
   \<and> sepgsql_fmgr_hook stacked_hooks sample_env FHET_START \<lparr>fn_oid = 16384\<rparr>
        (Some \<lparr>old_label = Some ''u:r:client_t:s0'', new_label = Some ''u:r:trusted_t:s0'',
                next_private = 1\<rparr>,
         (sample_session SEPGSQL_MODE_DEFAULT)\<lparr>client_label := ''u:r:trusted_t:s0''\<rparr>) =
       (Inl (FailedAssertion ''!stack->old_label''),
        (Some \<lparr>old_label = Some ''u:r:client_t:s0'', new_label = Some ''u:r:trusted_t:s0'',
                next_private = 1\<rparr>,
         (sample_session SEPGSQL_MODE_DEFAULT)\<lparr>client_label := ''u:r:trusted_t:s0''\<rparr>))"
proof -
  let ?stack = "\<lparr>old_label = Some ''u:r:client_t:s0'', new_label = Some ''u:r:trusted_t:s0'',
               next_private = 1\<rparr>"
  have ae: "assert_enabled sample_env" by (simp add: sample_env_def)
  have h: "old_label ?stack \<noteq> None" by simp
  from fmgr_hook_second_start_rejected[OF ae h] ae h show ?thesis by blast
qed

text \<open>
  C3 as stated fails in a build without assertion checking: nothing but the assertion
  guards the slot, the second Start returns, and the recorded prior label
  \<open>u:r:client_t:s0\<close> is overwritten with the label the session has then.
\<close>

theorem fmgr_hook_second_start_counterexample:
  "sepgsql_fmgr_hook no_hooks release_env FHET_START \<lparr>fn_oid = 16384\<rparr>
        (Some \<lparr>old_label = Some ''u:r:client_t:s0'', new_label = Some ''u:r:trusted_t:s0'',
                next_private = 0\<rparr>,
         (sample_session SEPGSQL_MODE_DEFAULT)\<lparr>client_label := ''u:r:trusted_t:s0''\<rparr>) =
       (Inr (),
        (Some \<lparr>old_label = Some ''u:r:trusted_t:s0'', new_label = Some ''u:r:trusted_t:s0'',
                next_private = 0\<rparr>,
         (sample_session SEPGSQL_MODE_DEFAULT)\<lparr>client_label := ''u:r:trusted_t:s0''\<rparr>))"
  by (simp add: sepgsql_fmgr_hook_def fmgr_stack_of_def call_next_fmgr_hook_def Assert_def
                sepgsql_set_client_label_def release_env_def no_hooks_def sample_env_def
                sample_session_def)

subsection \<open>The DML permission check\<close>

text \<open>
  C4. When the chained handler answers, the DML permission check is decided as follows.
  If the chained handler denies, the check returns the denial with the state the
  chained handler left, whatever \<^verbatim>\<open>sepgsql_dml_privileges\<close> is: the policy query of this
  layer is not issued. Otherwise (the chained handler allows, or none is installed) the
  result is the outcome of \<^verbatim>\<open>sepgsql_dml_privileges\<close>; so whenever this layer's own
  evaluation answers, the result is the conjunction of the two answers.
\<close>

theorem exec_check_perms_conjunctive:
  assumes "chained_exec_check_perms H rangeTabls abort w = (Inr allowed, w1)"
  shows "sepgsql_exec_check_perms H E rangeTabls abort w =
           (if allowed then call_next (sepgsql_dml_privileges E rangeTabls abort) w1
            else (Inr False, w1))
         \<and> (call_next (sepgsql_dml_privileges E rangeTabls abort) w1 = (Inr ok, w2) \<longrightarrow>
              fst (sepgsql_exec_check_perms H E rangeTabls abort w) = Inr (allowed \<and> ok))"
proof -
  obtain r w2' where d: "call_next (sepgsql_dml_privileges E rangeTabls abort) w1 = (r, w2')"
    by (cases "call_next (sepgsql_dml_privileges E rangeTabls abort) w1")
  show ?thesis
    using assms d
    by (cases r) (auto simp: sepgsql_exec_check_perms_def done_with_def)
qed

text \<open>
  The sample check: with a chained handler that denies, the double of
  \<^verbatim>\<open>sepgsql_dml_privileges\<close> receives no call; with no chained handler it receives one.
\<close>

theorem exec_check_perms_conjunctive_witness:
  "chained_exec_check_perms stacked_hooks [\<lparr>relid = 1, requiredPerms = 2\<rparr>] True
       (sample_session SEPGSQL_MODE_DEFAULT) =
     (Inr False, (sample_session SEPGSQL_MODE_DEFAULT)\<lparr>host := [''next_exec_check_perms'']\<rparr>)
   \<and> sepgsql_exec_check_perms stacked_hooks sample_env [\<lparr>relid = 1, requiredPerms = 2\<rparr>] True
         (sample_session SEPGSQL_MODE_DEFAULT) =
       (Inr False, (sample_session SEPGSQL_MODE_DEFAULT)\<lparr>host := [''next_exec_check_perms'']\<rparr>)
   \<and> sepgsql_exec_check_perms no_hooks sample_env [\<lparr>relid = 1, requiredPerms = 2\<rparr>] True
         (sample_session SEPGSQL_MODE_DEFAULT) =
       (Inr True, (sample_session SEPGSQL_MODE_DEFAULT)\<lparr>host := [''sepgsql_dml_privileges'']\<rparr>)"
proof -
  let ?w = "sample_session SEPGSQL_MODE_DEFAULT"
  let ?rt = "[\<lparr>relid = 1, requiredPerms = 2\<rparr>]"
  have c: "chained_exec_check_perms stacked_hooks ?rt True ?w =
             (Inr False, ?w\<lparr>host := [''next_exec_check_perms'']\<rparr>)"
    by (simp add: chained_exec_check_perms_def stacked_hooks_def call_next_def sample_session_def)
  have n: "chained_exec_check_perms no_hooks ?rt True ?w = (Inr True, ?w)"
    by (simp add: chained_exec_check_perms_def no_hooks_def done_with_def)
  from exec_check_perms_conjunctive[OF c, of sample_env]
       exec_check_perms_conjunctive[OF n, of sample_env] c
  show ?thesis
    by (simp add: sample_env_def call_next_def sample_session_def)
qed

subsection \<open>Creation of a relation\<close>

text \<open>
  C5. For a creation-completed event whose chained handler (if any) returns: on the
  relation class with \<open>subId = 0\<close>, \<^verbatim>\<open>sepgsql_relation_post_create\<close> is called if and
  only if the current command type is one of \<^verbatim>\<open>T_CreateStmt\<close>, \<^verbatim>\<open>T_ViewStmt\<close>,
  \<^verbatim>\<open>T_CreateSeqStmt\<close>, \<^verbatim>\<open>T_CompositeTypeStmt\<close>, \<^verbatim>\<open>T_CreateForeignTableStmt\<close> and
  \<^verbatim>\<open>T_SelectStmt\<close>; for any other command type this layer does nothing. On an object
  class other than database, schema, relation and procedure this layer does nothing.
\<close>

theorem object_access_relation_created:
  assumes "chained_object_access H OAT_POST_CREATE classId objectId subId w = (Inr (), w1)"
  shows "(classId = RelationRelationId \<and> subId = 0 \<longrightarrow>
            sepgsql_object_access H E OAT_POST_CREATE classId objectId subId w =
              (if cmdtype (sepgsql_context_info w) \<in>
                    {T_CreateStmt, T_ViewStmt, T_CreateSeqStmt, T_CompositeTypeStmt,
                     T_CreateForeignTableStmt, T_SelectStmt}
               then call_next (sepgsql_relation_post_create E objectId) w1
               else (Inr (), w1)))
         \<and> (classId \<notin> {DatabaseRelationId, NamespaceRelationId, RelationRelationId,
                          ProcedureRelationId} \<longrightarrow>
              sepgsql_object_access H E OAT_POST_CREATE classId objectId subId w = (Inr (), w1))"
proof -
  have ctx: "sepgsql_context_info w1 = sepgsql_context_info w"
    using assms
    by (auto simp: chained_object_access_def done_with_def dest: call_next_session
             split: option.splits)
  have ids: "RelationRelationId \<noteq> DatabaseRelationId" "RelationRelationId \<noteq> NamespaceRelationId"
    by (simp_all add: RelationRelationId_def DatabaseRelationId_def NamespaceRelationId_def)
  show ?thesis
  proof (intro conjI impI)
    assume "classId = RelationRelationId \<and> subId = 0"
    then show "sepgsql_object_access H E OAT_POST_CREATE classId objectId subId w =
              (if cmdtype (sepgsql_context_info w) \<in>
                    {T_CreateStmt, T_ViewStmt, T_CreateSeqStmt, T_CompositeTypeStmt,
                     T_CreateForeignTableStmt, T_SelectStmt}
               then call_next (sepgsql_relation_post_create E objectId) w1
               else (Inr (), w1))"
      using assms ctx ids
      by (cases "cmdtype (sepgsql_context_info w)") (simp_all add: sepgsql_object_access_def)
  next
    assume "classId \<notin> {DatabaseRelationId, NamespaceRelationId, RelationRelationId,
                          ProcedureRelationId}"
    then show "sepgsql_object_access H E OAT_POST_CREATE classId objectId subId w = (Inr (), w1)"
      using assms by (simp add: sepgsql_object_access_def)
  qed
qed

text \<open>
  The sample events: a relation created under \<^verbatim>\<open>CREATE TABLE\<close>, the same event under
  another command type, and an event on an unsupported class.
\<close>

theorem object_access_relation_created_witness:
  "sepgsql_object_access stacked_hooks sample_env OAT_POST_CREATE RelationRelationId 99 0
       (set_cmdtype T_CreateStmt (sample_session SEPGSQL_MODE_DEFAULT)) =
     (Inr (), (set_cmdtype T_CreateStmt (sample_session SEPGSQL_MODE_DEFAULT))
                \<lparr>host := [''next_object_access'', ''sepgsql_relation_post_create'']\<rparr>)
   \<and> sepgsql_object_access stacked_hooks sample_env OAT_POST_CREATE RelationRelationId 99 0
       (set_cmdtype (T_OtherNode 5) (sample_session SEPGSQL_MODE_DEFAULT)) =
     (Inr (), (set_cmdtype (T_OtherNode 5) (sample_session SEPGSQL_MODE_DEFAULT))
                \<lparr>host := [''next_object_access'']\<rparr>)
   \<and> sepgsql_object_access stacked_hooks sample_env OAT_POST_CREATE 2604 99 0
       (set_cmdtype T_CreateStmt (sample_session SEPGSQL_MODE_DEFAULT)) =
     (Inr (), (set_cmdtype T_CreateStmt (sample_session SEPGSQL_MODE_DEFAULT))
                \<lparr>host := [''next_object_access'']\<rparr>)"
proof -
  let ?w = "set_cmdtype T_CreateStmt (sample_session SEPGSQL_MODE_DEFAULT)"
  let ?v = "set_cmdtype (T_OtherNode 5) (sample_session SEPGSQL_MODE_DEFAULT)"
  have c: "chained_object_access stacked_hooks OAT_POST_CREATE classId 99 0 w =
             (Inr (), w\<lparr>host := host w @ [''next_object_access'']\<rparr>)" for classId w
    by (simp add: chained_object_access_def stacked_hooks_def call_next_def)
  have ids: "(2604::Oid) \<notin> {DatabaseRelationId, NamespaceRelationId, RelationRelationId,
                          ProcedureRelationId}"
    by (simp add: DatabaseRelationId_def NamespaceRelationId_def RelationRelationId_def
                  ProcedureRelationId_def)
  from object_access_relation_created[OF c, where classId = RelationRelationId and w = ?w
         and E = sample_env]
       object_access_relation_created[OF c, where classId = RelationRelationId and w = ?v
         and E = sample_env]
       object_access_relation_created[OF c, where classId = 2604 and w = ?w
         and E = sample_env] ids
  show ?thesis
    by (simp add: sample_env_def call_next_def sample_session_def set_cmdtype_def)
qed

subsection \<open>LOAD\<close>

text \<open>
  C6. For a \<^verbatim>\<open>LOAD\<close> command: when \<^verbatim>\<open>sepgsql_getenforce\<close> answers that the session is
  enforcing, the command is denied with the error code of insufficient privilege and
  the state is left as it was, whatever the chained and the standard utility handler
  are: neither is called. When it answers that the session is not enforcing, the
  command is delegated, and the contextual information is restored after the handler.
\<close>

theorem load_denied_when_enforcing:
  assumes "nodeTag parsetree = T_LoadStmt"
  shows "(sepgsql_getenforce E (set_cmdtype T_LoadStmt w) \<longrightarrow>
            sepgsql_utility_command H E parsetree queryString params isTopLevel dest w =
              (Inl (Ereport ERROR ERRCODE_INSUFFICIENT_PRIVILEGE ''SELinux: LOAD is not permitted''),
               w))
         \<and> (\<not> sepgsql_getenforce E (set_cmdtype T_LoadStmt w) \<longrightarrow>
              sepgsql_utility_command H E parsetree queryString params isTopLevel dest w =
                (case next_ProcessUtility H E parsetree queryString params isTopLevel dest
                        (set_cmdtype T_LoadStmt w) of
                   (r, w') \<Rightarrow>
                     (r, if survives r then w'\<lparr>sepgsql_context_info := sepgsql_context_info w\<rparr>
                         else w')))"
proof -
  obtain r w' where n: "next_ProcessUtility H E parsetree queryString params isTopLevel dest
                        (set_cmdtype T_LoadStmt w) = (r, w')"
    by (cases "next_ProcessUtility H E parsetree queryString params isTopLevel dest
                        (set_cmdtype T_LoadStmt w)")
  show ?thesis
    using assms n
    by (cases r)
       (auto simp: sepgsql_utility_command_def PG_TRY_def and_then_def ereport_def
                   set_cmdtype_def Let_def)
qed

text \<open>
  The sample commands: \<^verbatim>\<open>LOAD\<close> in an enforcing session and in a permissive one.
\<close>

theorem load_denied_when_enforcing_witness:
  "sepgsql_utility_command no_hooks sample_env \<lparr>nodeTag = T_LoadStmt, options = []\<rparr>
       ''LOAD'' 0 True 0 (sample_session SEPGSQL_MODE_DEFAULT) =
     (Inl (Ereport ERROR ERRCODE_INSUFFICIENT_PRIVILEGE ''SELinux: LOAD is not permitted''),
      sample_session SEPGSQL_MODE_DEFAULT)
   \<and> sepgsql_utility_command no_hooks sample_env \<lparr>nodeTag = T_LoadStmt, options = []\<rparr>
       ''LOAD'' 0 True 0 (sample_session SEPGSQL_MODE_PERMISSIVE) =
     (Inr (), (sample_session SEPGSQL_MODE_PERMISSIVE)\<lparr>host := [''standard_ProcessUtility'']\<rparr>)"
proof -
  let ?tree = "\<lparr>nodeTag = T_LoadStmt, options = []\<rparr>"
  have t: "nodeTag ?tree = T_LoadStmt" by simp
  have enf: "sepgsql_getenforce sample_env (set_cmdtype T_LoadStmt (sample_session SEPGSQL_MODE_DEFAULT))"
    by (simp add: sample_env_def set_cmdtype_def sample_session_def)
  have per: "\<not> sepgsql_getenforce sample_env
                 (set_cmdtype T_LoadStmt (sample_session SEPGSQL_MODE_PERMISSIVE))"
    by (simp add: sample_env_def set_cmdtype_def sample_session_def)
  from load_denied_when_enforcing[OF t, where E = sample_env
         and w = "sample_session SEPGSQL_MODE_DEFAULT" and H = no_hooks
         and queryString = "''LOAD''" and params = 0 and isTopLevel = True and dest = 0] enf
  have a: "sepgsql_utility_command no_hooks sample_env ?tree ''LOAD'' 0 True 0
             (sample_session SEPGSQL_MODE_DEFAULT) =
           (Inl (Ereport ERROR ERRCODE_INSUFFICIENT_PRIVILEGE ''SELinux: LOAD is not permitted''),
            sample_session SEPGSQL_MODE_DEFAULT)"
    by blast
  from load_denied_when_enforcing[OF t, where E = sample_env
         and w = "sample_session SEPGSQL_MODE_PERMISSIVE" and H = no_hooks
         and queryString = "''LOAD''" and params = 0 and isTopLevel = True and dest = 0] per
  have b: "sepgsql_utility_command no_hooks sample_env ?tree ''LOAD'' 0 True 0
             (sample_session SEPGSQL_MODE_PERMISSIVE) =
           (case next_ProcessUtility no_hooks sample_env ?tree ''LOAD'' 0 True 0
                        (set_cmdtype T_LoadStmt (sample_session SEPGSQL_MODE_PERMISSIVE)) of
                   (r, w') \<Rightarrow>
                     (r, if survives r
                         then w'\<lparr>sepgsql_context_info :=
                                   sepgsql_context_info (sample_session SEPGSQL_MODE_PERMISSIVE)\<rparr>
                         else w'))"
    by blast
  from a b show ?thesis
    by (simp add: next_ProcessUtility_def no_hooks_def sample_env_def set_cmdtype_def
                  sample_session_def)
qed

subsection \<open>Authentication\<close>

text \<open>
  C7. On a successful authentication (the chained handler, if any, has returned and the
  peer label was obtained), the client label becomes the peer label, and the mode becomes
  \<^verbatim>\<open>SEPGSQL_MODE_PERMISSIVE\<close> when \<open>sepgsql_permissive\<close> is set and
  \<^verbatim>\<open>SEPGSQL_MODE_DEFAULT\<close>, the enforcing mode, otherwise.
\<close>

theorem client_auth_labels_session:
  assumes "status = STATUS_OK"
    and "chained_client_auth H port status w = (Inr (), w1)"
    and "getpeercon_raw E w1 (sock port) = Some peer"
  shows "sepgsql_client_auth H E port status w =
           (Inr (), w1\<lparr>client_label := peer,
                       sepgsql_mode := (if sepgsql_permissive w1 then SEPGSQL_MODE_PERMISSIVE
                                        else SEPGSQL_MODE_DEFAULT)\<rparr>)"
  using assms
  by (simp add: sepgsql_client_auth_def sepgsql_set_client_label_def sepgsql_set_mode_def)

text \<open>
  The sample authentication: the permissive flag is off and the peer label is
  \<open>u:r:t:s0\<close>.
\<close>

theorem client_auth_labels_session_witness:
  "getpeercon_raw sample_env
     ((sample_session SEPGSQL_MODE_INTERNAL)\<lparr>host := [''next_client_auth'']\<rparr>) 7 = Some ''u:r:t:s0''
   \<and> sepgsql_client_auth stacked_hooks sample_env \<lparr>sock = 7\<rparr> STATUS_OK
         (sample_session SEPGSQL_MODE_INTERNAL) =
       (Inr (), \<lparr>client_label = ''u:r:t:s0'', sepgsql_mode = SEPGSQL_MODE_DEFAULT,
                 sepgsql_permissive = False,
                 sepgsql_context_info = \<lparr>cmdtype = T_Invalid, createdb_dtemplate = None\<rparr>,
                 host = [''next_client_auth'']\<rparr>)"
proof -
  let ?w = "sample_session SEPGSQL_MODE_INTERNAL"
  let ?w1 = "?w\<lparr>host := [''next_client_auth'']\<rparr>"
  have c: "chained_client_auth stacked_hooks \<lparr>sock = 7\<rparr> STATUS_OK ?w = (Inr (), ?w1)"
    by (simp add: chained_client_auth_def stacked_hooks_def call_next_def sample_session_def)
  have p: "getpeercon_raw sample_env ?w1 (sock \<lparr>sock = 7\<rparr>) = Some ''u:r:t:s0''"
    by (simp add: sample_env_def)
  from client_auth_labels_session[OF refl c p] p show ?thesis
    by (simp add: sample_session_def)
qed

text \<open>
  C8. On an authentication with a successful status where the peer label cannot be
  obtained, the hook raises an error at level \<^verbatim>\<open>FATAL\<close>, which ends the session; the
  client label and the mode are those from before the authentication.
\<close>

theorem client_auth_no_peer_label_is_fatal:
  assumes "status = STATUS_OK"
    and "chained_client_auth H port status w = (Inr (), w1)"
    and "getpeercon_raw E w1 (sock port) = None"
  shows "sepgsql_client_auth H E port status w =
           (Inl (Ereport FATAL ERRCODE_INTERNAL_ERROR ''SELinux: unable to get peer label: %m''), w1)
         \<and> client_label w1 = client_label w \<and> sepgsql_mode w1 = sepgsql_mode w"
  using assms chained_client_auth_session[OF assms(2)]
  by (auto simp add: sepgsql_client_auth_def ereport_def)

theorem client_auth_no_peer_label_is_fatal_witness:
  "getpeercon_raw sample_env
     ((sample_session SEPGSQL_MODE_INTERNAL)\<lparr>host := [''next_client_auth'']\<rparr>) 8 = None
   \<and> sepgsql_client_auth stacked_hooks sample_env \<lparr>sock = 8\<rparr> STATUS_OK
         (sample_session SEPGSQL_MODE_INTERNAL) =
       (Inl (Ereport FATAL ERRCODE_INTERNAL_ERROR ''SELinux: unable to get peer label: %m''),
        \<lparr>client_label = ''u:r:client_t:s0'', sepgsql_mode = SEPGSQL_MODE_INTERNAL,
          sepgsql_permissive = False,
          sepgsql_context_info = \<lparr>cmdtype = T_Invalid, createdb_dtemplate = None\<rparr>,
          host = [''next_client_auth'']\<rparr>)"
proof -
  let ?w = "sample_session SEPGSQL_MODE_INTERNAL"
  let ?w1 = "?w\<lparr>host := [''next_client_auth'']\<rparr>"
  have c: "chained_client_auth stacked_hooks \<lparr>sock = 8\<rparr> STATUS_OK ?w = (Inr (), ?w1)"
    by (simp add: chained_client_auth_def stacked_hooks_def call_next_def sample_session_def)
  have p: "getpeercon_raw sample_env ?w1 (sock \<lparr>sock = 8\<rparr>) = None"
    by (simp add: sample_env_def)
  from client_auth_no_peer_label_is_fatal[OF refl c p] p show ?thesis
    by (simp add: sample_session_def)
qed

subsection \<open>The needs-wrapper query\<close>

text \<open>
  C9. When the chained handler (if any) answers, \<^verbatim>\<open>sepgsql_needs_fmgr_hook\<close> answers
  yes if and only if the chained handler answered yes, or a transition label exists for
  the function, or the subject is not allowed \<^verbatim>\<open>db_procedure:{execute}\<close> on it.
\<close>

theorem needs_fmgr_hook_answer:
  assumes "chained_needs_fmgr_hook H functionId w = (Inr chained_yes, w1)"
  shows "sepgsql_needs_fmgr_hook H E functionId w =
           (Inr (chained_yes
                 \<or> sepgsql_avc_trusted_proc E w1 functionId \<noteq> None
                 \<or> \<not> avc_allowed E w1 (ObjectAddress ProcedureRelationId functionId 0)
                        SEPG_CLASS_DB_PROCEDURE SEPG_DB_PROCEDURE__EXECUTE), w1)"
  using assms
  by (auto simp: sepgsql_needs_fmgr_hook_def sepgsql_avc_check_perms_def avc_check_def
                 and_then_def done_with_def)

text \<open>
  The sample queries: a trusted procedure, a function the subject may not execute, and
  a plain function.
\<close>

theorem needs_fmgr_hook_answer_witness:
  "sepgsql_needs_fmgr_hook stacked_hooks sample_env 16384 (sample_session SEPGSQL_MODE_DEFAULT) =
     (Inr True, (sample_session SEPGSQL_MODE_DEFAULT)\<lparr>host := [''next_needs_fmgr'']\<rparr>)
   \<and> sepgsql_needs_fmgr_hook stacked_hooks sample_env 16385 (sample_session SEPGSQL_MODE_DEFAULT) =
     (Inr True, (sample_session SEPGSQL_MODE_DEFAULT)\<lparr>host := [''next_needs_fmgr'']\<rparr>)
   \<and> sepgsql_needs_fmgr_hook stacked_hooks sample_env 16386 (sample_session SEPGSQL_MODE_DEFAULT) =
     (Inr False, (sample_session SEPGSQL_MODE_DEFAULT)\<lparr>host := [''next_needs_fmgr'']\<rparr>)"
proof -
  let ?w = "sample_session SEPGSQL_MODE_DEFAULT"
  have c: "chained_needs_fmgr_hook stacked_hooks functionId ?w =
             (Inr False, ?w\<lparr>host := [''next_needs_fmgr'']\<rparr>)" for functionId
    by (simp add: chained_needs_fmgr_hook_def stacked_hooks_def call_next_def sample_session_def)
  from needs_fmgr_hook_answer[OF c, where functionId = 16384 and E = sample_env]
       needs_fmgr_hook_answer[OF c, where functionId = 16385 and E = sample_env]
       needs_fmgr_hook_answer[OF c, where functionId = 16386 and E = sample_env]
  show ?thesis
    by (simp add: sample_env_def ProcedureRelationId_def)
qed

subsection \<open>Failed authentication\<close>

text \<open>
  C10. On an authentication whose status is not \<^verbatim>\<open>STATUS_OK\<close>, the hook does what the
  chained handler does and nothing more: the outcome does not depend on
  \<^verbatim>\<open>getpeercon_raw\<close>, and the client label and the mode are unchanged.
\<close>

theorem client_auth_failed_status:
  assumes "status \<noteq> STATUS_OK"
  shows "sepgsql_client_auth H E port status w = chained_client_auth H port status w
         \<and> client_label (snd (sepgsql_client_auth H E port status w)) = client_label w
         \<and> sepgsql_mode (snd (sepgsql_client_auth H E port status w)) = sepgsql_mode w"
proof -
  obtain r w1 where c: "chained_client_auth H port status w = (r, w1)"
    by (cases "chained_client_auth H port status w")
  have eq: "sepgsql_client_auth H E port status w = (r, w1)"
    using assms c by (cases r) (simp_all add: sepgsql_client_auth_def)
  from chained_client_auth_session[OF c] eq c show ?thesis by auto
qed

theorem client_auth_failed_status_witness:
  "(-1) \<noteq> STATUS_OK
   \<and> sepgsql_client_auth stacked_hooks sample_env \<lparr>sock = 7\<rparr> (-1)
         (sample_session SEPGSQL_MODE_INTERNAL) =
       (Inr (), \<lparr>client_label = ''u:r:client_t:s0'', sepgsql_mode = SEPGSQL_MODE_INTERNAL,
                 sepgsql_permissive = False,
                 sepgsql_context_info = \<lparr>cmdtype = T_Invalid, createdb_dtemplate = None\<rparr>,
                 host = [''next_client_auth'']\<rparr>)"
proof -
  have s: "(-1) \<noteq> STATUS_OK" by (simp add: STATUS_OK_def)
  from client_auth_failed_status[OF s, of stacked_hooks sample_env "\<lparr>sock = 7\<rparr>"
         "sample_session SEPGSQL_MODE_INTERNAL"] s
  show ?thesis
    by (simp add: chained_client_auth_def stacked_hooks_def call_next_def sample_session_def)
qed

end
